theory Spec2Isabelle
  imports Main "HOL-Library.Log_Nat"
begin

section \<open>The quiz taker of LearnFlow\<close>

text \<open>
  This theory embeds the component \<^verbatim>\<open>QuizTaker\<close> (components/quiz/QuizTaker.jsx):
  its six state variables, its handlers, its timer effect, and the guards that its
  rendered controls put in front of the handlers.
\<close>

subsection \<open>The quiz definition (the \<^verbatim>\<open>quiz\<close> prop)\<close>

text \<open>
  A JavaScript string is a sequence of UTF-16 code units; \<open>ascii\<close> gives the code units
  of an ASCII literal.
\<close>

type_synonym js_string = "nat list"

definition ascii :: "string \<Rightarrow> js_string" where
  "ascii s = map of_char s"

record question =
  question_text :: js_string
  options :: "js_string list"
  correctAnswer :: nat
  explanation :: js_string

text \<open>
  \<^verbatim>\<open>timeLimit\<close> is a number of minutes. It is an integer here: the creator's form
  offers whole minutes, and the demo quiz has 10.
\<close>

record quiz =
  title :: js_string
  description :: js_string
  timeLimit :: int
  questions :: "question list"

subsection \<open>JavaScript numbers in the score\<close>

text \<open>
  \<^verbatim>\<open>Math.round((correct / quiz.questions.length) * 100)\<close> is computed on IEEE 754
  doubles: the quotient is rounded to the nearest double, the product is rounded
  again, and \<^verbatim>\<open>Math.round\<close> takes the nearest integer, a tie going up.
  The value of a double is kept as a fraction of two naturals. \<open>to_double\<close> rounds a
  fraction to the nearest double with 53 significant bits, a tie going to the even
  significand: from the bit lengths of numerator and denominator it finds the exponent
  \<open>e\<close> with \<open>2 ^ e \<le> p / q < 2 ^ (e + 1)\<close>, rounds \<open>p / q * 2 ^ (52 - e)\<close> to the
  integer significand \<open>m\<close>, and returns \<open>m * 2 ^ (e - 52)\<close>. It covers the normal range
  of doubles, which holds every quotient of two array lengths and its hundredfold.
\<close>

type_synonym fraction = "nat \<times> nat"

definition round_half_even :: "nat \<Rightarrow> nat \<Rightarrow> nat" where
  "round_half_even p q =
     (let f = p div q; r = p mod q
      in if 2 * r < q then f
         else if q < 2 * r then f + 1
         else if even f then f else f + 1)"

definition scale2 :: "fraction \<Rightarrow> int \<Rightarrow> fraction" where
  "scale2 x k =
     (case x of (p, q) \<Rightarrow>
        if 0 \<le> k then (p * 2 ^ nat k, q) else (p, q * 2 ^ nat (- k)))"

definition to_double :: "fraction \<Rightarrow> fraction" where
  "to_double x =
     (case x of (p, q) \<Rightarrow>
        if p = 0 then (0, 1)
        else
          let d = int (floorlog 2 p) - int (floorlog 2 q);
              e = (case scale2 (p, q) (- d) of (a, b) \<Rightarrow> if b \<le> a then d else d - 1);
              m = (case scale2 (p, q) (52 - e) of (a, b) \<Rightarrow> round_half_even a b)
          in scale2 (m, 1) (e - 52))"

definition js_divide :: "nat \<Rightarrow> nat \<Rightarrow> fraction" where
  "js_divide c n = to_double (c, n)"

definition js_times :: "fraction \<Rightarrow> nat \<Rightarrow> fraction" where
  "js_times x k = (case x of (p, q) \<Rightarrow> to_double (p * k, q))"

definition math_round :: "fraction \<Rightarrow> nat" where
  "math_round x = (case x of (p, q) \<Rightarrow> (2 * p + q) div (2 * q))"

text \<open>The score is a number: an integer, or \<^verbatim>\<open>NaN\<close> (from \<^verbatim>\<open>0 / 0\<close>).\<close>

datatype number = NaN | Num int

subsection \<open>The answers object\<close>

text \<open>
  \<^verbatim>\<open>answers\<close> is an object whose keys are question indices. Its own properties are
  listed in property order, which for integer keys is ascending. \<open>assign\<close> is the
  spread \<^verbatim>\<open>{...prev, [questionIndex]: answerIndex}\<close>.
\<close>

type_synonym answers = "(nat \<times> nat) list"

fun assign :: "nat \<Rightarrow> nat \<Rightarrow> answers \<Rightarrow> answers" where
  "assign k v [] = [(k, v)]"
| "assign k v ((k', v') # xs) =
     (if k = k' then (k, v) # xs
      else if k < k' then (k, v) # (k', v') # xs
      else (k', v') # assign k v xs)"

definition hasOwnProperty :: "answers \<Rightarrow> nat \<Rightarrow> bool" where
  "hasOwnProperty a k = (k \<in> set (map fst a))"

definition object_values :: "answers \<Rightarrow> nat list" where
  "object_values a = map snd a"

subsection \<open>calculateScore\<close>

text \<open>
  \<open>count_correct\<close> is the \<^verbatim>\<open>forEach\<close> loop: \<^verbatim>\<open>answers[index] === question.correctAnswer\<close>
  is false for a question without a recorded answer (\<^verbatim>\<open>undefined\<close>). With no question
  at all \<^verbatim>\<open>correct\<close> is 0 and the quotient \<^verbatim>\<open>0 / 0\<close> is \<^verbatim>\<open>NaN\<close>, which
  \<^verbatim>\<open>Math.round\<close> returns as it is.
\<close>

definition count_correct :: "quiz \<Rightarrow> answers \<Rightarrow> nat" where
  "count_correct q a =
     foldl (\<lambda>correct (question, index).
              if map_of a index = Some (correctAnswer question) then correct + 1 else correct)
       0 (zip (questions q) [0 ..< length (questions q)])"

definition calculateScore :: "quiz \<Rightarrow> answers \<Rightarrow> number" where
  "calculateScore q a =
     (let correct = count_correct q a; n = length (questions q)
      in if n = 0 then NaN
         else Num (int (math_round (js_times (js_divide correct n) 100))))"

subsection \<open>The component's state\<close>

text \<open>
  The record passed to the \<^verbatim>\<open>onComplete\<close> prop. Its \<^verbatim>\<open>completedAt\<close> field is the wall
  clock and is left out.
\<close>

record quiz_result =
  result_answers :: answers
  result_score :: number
  timeSpent :: int

text \<open>
  The six \<^verbatim>\<open>useState\<close> variables, and the calls made to \<^verbatim>\<open>onComplete\<close> so far (the
  component's only output).
\<close>

record quiz_state =
  currentQuestion :: nat
  answers :: answers
  timeRemaining :: int
  quizCompleted :: bool
  showResults :: bool
  score :: number
  onComplete_calls :: "quiz_result list"

definition initial :: "quiz \<Rightarrow> quiz_state" where
  "initial q =
     \<lparr>currentQuestion = 0, answers = [], timeRemaining = timeLimit q * 60,
      quizCompleted = False, showResults = False, score = Num 0, onComplete_calls = []\<rparr>"

subsection \<open>The handlers\<close>

definition handleAnswerSelect :: "nat \<Rightarrow> nat \<Rightarrow> quiz_state \<Rightarrow> quiz_state" where
  "handleAnswerSelect questionIndex answerIndex s =
     s\<lparr>answers := assign questionIndex answerIndex (answers s)\<rparr>"

definition handleNext :: "quiz \<Rightarrow> quiz_state \<Rightarrow> quiz_state" where
  "handleNext q s =
     (if int (currentQuestion s) < int (length (questions q)) - 1
      then s\<lparr>currentQuestion := currentQuestion s + 1\<rparr> else s)"

definition handlePrevious :: "quiz_state \<Rightarrow> quiz_state" where
  "handlePrevious s =
     (if 0 < currentQuestion s then s\<lparr>currentQuestion := currentQuestion s - 1\<rparr> else s)"

definition setCurrentQuestion :: "nat \<Rightarrow> quiz_state \<Rightarrow> quiz_state" where
  "setCurrentQuestion index s = s\<lparr>currentQuestion := index\<rparr>"

definition handleSubmitQuiz :: "quiz \<Rightarrow> quiz_state \<Rightarrow> quiz_state" where
  "handleSubmitQuiz q s =
     (let finalScore = calculateScore q (answers s)
      in s\<lparr>score := finalScore, quizCompleted := True, showResults := True,
            onComplete_calls := onComplete_calls s @
              [\<lparr>result_answers = answers s, result_score = finalScore,
                timeSpent = timeLimit q * 60 - timeRemaining s\<rparr>]\<rparr>)"

definition handleRestart :: "quiz \<Rightarrow> quiz_state \<Rightarrow> quiz_state" where
  "handleRestart q s =
     s\<lparr>currentQuestion := 0, answers := [], timeRemaining := timeLimit q * 60,
       quizCompleted := False, showResults := False, score := Num 0\<rparr>"

definition allQuestionsAnswered :: "quiz \<Rightarrow> quiz_state \<Rightarrow> bool" where
  "allQuestionsAnswered q s =
     list_all (\<lambda>index. hasOwnProperty (answers s) index) [0 ..< length (questions q)]"

subsection \<open>The timer effect\<close>

text \<open>
  The effect depends on \<^verbatim>\<open>[timeRemaining, quizCompleted]\<close>: it runs after the first
  render and after every render in which one of the two has changed. Its first branch
  sets a one-second timeout, which the clean-up clears when the effect runs again; so a
  timeout is pending exactly when the first branch's condition holds of the current
  state. Its second branch submits the quiz.
\<close>

definition timer_pending :: "quiz_state \<Rightarrow> bool" where
  "timer_pending s = (0 < timeRemaining s \<and> \<not> quizCompleted s)"

definition timer_effect :: "quiz \<Rightarrow> quiz_state \<Rightarrow> quiz_state" where
  "timer_effect q s =
     (if 0 < timeRemaining s \<and> \<not> quizCompleted s then s
      else if timeRemaining s = 0 \<and> \<not> quizCompleted s then handleSubmitQuiz q s
      else s)"

text \<open>
  One second passes: a pending timeout fires, \<^verbatim>\<open>setTimeRemaining(prev => prev - 1)\<close>,
  and the effect runs on the new state. With no timeout pending nothing happens.
\<close>

definition tick :: "quiz \<Rightarrow> quiz_state \<Rightarrow> quiz_state" where
  "tick q s =
     (if timer_pending s then timer_effect q (s\<lparr>timeRemaining := timeRemaining s - 1\<rparr>)
      else s)"

subsection \<open>Rendering\<close>

text \<open>
  The component defines no error conditions of its own. What it can raise is the
  \<^verbatim>\<open>TypeError\<close> of reading a property of \<^verbatim>\<open>undefined\<close>: in the question view
  \<^verbatim>\<open>quiz.questions[currentQuestion].question\<close>, in the results view
  \<^verbatim>\<open>quiz.questions[index].correctAnswer\<close> for the positions of \<^verbatim>\<open>Object.values(answers)\<close>.
\<close>

datatype error = TypeError

definition results_correct_answers :: "quiz \<Rightarrow> answers \<Rightarrow> error + nat" where
  "results_correct_answers q a =
     (let vs = object_values a
      in if length (questions q) < length vs then Inl TypeError
         else Inr (length (filter (\<lambda>(answer, index). answer = correctAnswer (questions q ! index))
                     (zip vs [0 ..< length vs]))))"

definition renders :: "quiz \<Rightarrow> quiz_state \<Rightarrow> bool" where
  "renders q s =
     (if showResults s then results_correct_answers q (answers s) \<noteq> Inl TypeError
      else currentQuestion s < length (questions q))"

text \<open>Mounting: the state is initialised, the first render is made, then the effect runs.\<close>

definition mount :: "quiz \<Rightarrow> error + quiz_state" where
  "mount q = (if renders q (initial q) then Inr (timer_effect q (initial q)) else Inl TypeError)"

subsection \<open>The rendered controls\<close>

text \<open>
  The handlers are reached only through the controls of the current view. The results
  view (\<^verbatim>\<open>if (showResults) return ...\<close>) has the Retake button and nothing else that
  touches the state. The question view has a radio input for each option of the
  current question, the Previous button (disabled on the first question), a jump
  button for each question, and on the last question the Submit button (disabled
  unless all questions are answered), otherwise the Next button (disabled unless the
  current question is answered). An event whose control is absent or disabled leaves
  the state as it is. After a handler that changes \<^verbatim>\<open>timeRemaining\<close> or
  \<^verbatim>\<open>quizCompleted\<close> the timer effect runs.
\<close>

datatype event =
  SelectOption nat | Previous | Jump nat | Next | Submit | Restart | TimerFires

fun dispatch :: "quiz \<Rightarrow> quiz_state \<Rightarrow> event \<Rightarrow> quiz_state" where
  "dispatch q s (SelectOption index) =
     (if \<not> showResults s \<and> currentQuestion s < length (questions q)
         \<and> index < length (options (questions q ! currentQuestion s))
      then handleAnswerSelect (currentQuestion s) index s else s)"
| "dispatch q s Previous =
     (if \<not> showResults s \<and> currentQuestion s \<noteq> 0 then handlePrevious s else s)"
| "dispatch q s (Jump index) =
     (if \<not> showResults s \<and> index < length (questions q)
      then setCurrentQuestion index s else s)"
| "dispatch q s Next =
     (if \<not> showResults s \<and> int (currentQuestion s) \<noteq> int (length (questions q)) - 1
         \<and> hasOwnProperty (answers s) (currentQuestion s)
      then handleNext q s else s)"
| "dispatch q s Submit =
     (if \<not> showResults s \<and> int (currentQuestion s) = int (length (questions q)) - 1
         \<and> allQuestionsAnswered q s
      then timer_effect q (handleSubmitQuiz q s) else s)"
| "dispatch q s Restart =
     (if showResults s then timer_effect q (handleRestart q s) else s)"
| "dispatch q s TimerFires = tick q s"

definition run :: "quiz \<Rightarrow> quiz_state \<Rightarrow> event list \<Rightarrow> quiz_state" where
  "run q s evs = foldl (dispatch q) s evs"

inductive reachable :: "quiz \<Rightarrow> quiz_state \<Rightarrow> bool" for q :: quiz where
  mounted: "mount q = Inr s \<Longrightarrow> reachable q s"
| step: "reachable q s \<Longrightarrow> reachable q (dispatch q s ev)"

subsection \<open>validateQuiz of the quiz creator\<close>

text \<open>
  \<^verbatim>\<open>QuizCreator\<close> saves a quiz only if \<^verbatim>\<open>validateQuiz\<close> finds no error. The keys of its
  \<^verbatim>\<open>newErrors\<close> object (\<^verbatim>\<open>title\<close>, \<^verbatim>\<open>questions\<close>, \<^verbatim>\<open>question_<index>\<close>,
  \<^verbatim>\<open>options_<index>\<close>) are a datatype here. \<open>is_blank s\<close> is \<^verbatim>\<open>!s.trim()\<close>:
  \<^verbatim>\<open>trim\<close> strips the white space and line terminators of ECMAScript (tab, line feed,
  vertical tab, form feed, carriage return, space, no-break space, the other space
  separators of Unicode, the line and paragraph separators, and the byte order mark),
  so the rest is empty exactly when every code unit is one of them.
\<close>

datatype error_key = title_key | questions_key | question_key nat | options_key nat

definition white_space :: "nat \<Rightarrow> bool" where
  "white_space c =
     (c \<in> set [0x09, 0x0A, 0x0B, 0x0C, 0x0D, 0x20, 0xA0, 0x1680, 0x2028, 0x2029, 0x202F,
                0x205F, 0x3000, 0xFEFF]
      \<or> (0x2000 \<le> c \<and> c \<le> 0x200A))"

definition is_blank :: "js_string \<Rightarrow> bool" where
  "is_blank s = list_all white_space s"

definition validateQuiz_errors :: "quiz \<Rightarrow> (error_key \<times> string) list" where
  "validateQuiz_errors quizData =
     (if is_blank (title quizData) then [(title_key, ''Quiz title is required'')] else []) @
     (if length (questions quizData) = 0
      then [(questions_key, ''At least one question is required'')] else []) @
     concat (map (\<lambda>(question, index).
         (if is_blank (question_text question)
          then [(question_key index, ''Question text is required'')] else []) @
         (let validOptions = filter (\<lambda>opt. \<not> is_blank opt) (options question)
          in if length validOptions < 2
             then [(options_key index, ''At least 2 options are required'')] else []))
       (zip (questions quizData) [0 ..< length (questions quizData)]))"

definition validateQuiz :: "quiz \<Rightarrow> bool" where
  "validateQuiz quizData = (length (validateQuiz_errors quizData) = 0)"

subsection \<open>The score as the specification words it\<close>

text \<open>
  \<open>round (100 * correctCount / questionCount)\<close> on exact fractions, a tie going up as in
  \<^verbatim>\<open>Math.round\<close>.
\<close>

definition spec_score :: "nat \<Rightarrow> nat \<Rightarrow> int" where
  "spec_score correctCount questionCount =
     int ((200 * correctCount + questionCount) div (2 * questionCount))"

subsection \<open>Example quizzes\<close>

definition example_question :: "nat \<Rightarrow> question" where
  "example_question c =
     \<lparr>question_text = ascii ''What is JSX?'',
      options = [ascii ''A JavaScript library'', ascii ''A syntax extension for JavaScript'',
                 ascii ''A CSS framework'', ascii ''A database query language''],
      correctAnswer = c, explanation = []\<rparr>"

text \<open>Three questions whose correct options are 1, 0 and 2; ten minutes.\<close>

definition quiz3 :: quiz where
  "quiz3 =
     \<lparr>title = ascii ''React Fundamentals Quiz'',
      description = ascii ''Test your knowledge'',
      timeLimit = 10,
      questions = [example_question 1, example_question 0, example_question 2]\<rparr>"

definition untimed_quiz :: quiz where
  "untimed_quiz = quiz3\<lparr>timeLimit := 0\<rparr>"

definition one_minute_quiz :: quiz where
  "one_minute_quiz = quiz3\<lparr>timeLimit := 1\<rparr>"

definition empty_quiz :: quiz where
  "empty_quiz = quiz3\<lparr>questions := []\<rparr>"

text \<open>Forty questions, each with correct option 0; the first 23 answered with 0, the rest with 1.\<close>

definition quiz40 :: quiz where
  "quiz40 = quiz3\<lparr>questions := replicate 40 (example_question 0)\<rparr>"

definition answers23 :: answers where
  "answers23 = zip [0 ..< 40] (replicate 23 0 @ replicate 17 1)"

text \<open>The respondent answers 1, 0, 0 to \<open>quiz3\<close>, ending on the last question.\<close>

definition answering_1_0_0 :: "event list" where
  "answering_1_0_0 = [SelectOption 1, Next, SelectOption 0, Next, SelectOption 0]"

definition in_progress_1_0_0 :: quiz_state where
  "in_progress_1_0_0 = run quiz3 (initial quiz3) answering_1_0_0"

definition submitted_1_0_0 :: quiz_state where
  "submitted_1_0_0 = dispatch quiz3 in_progress_1_0_0 Submit"

text \<open>The respondent answers the first question, then 59 seconds pass.\<close>

definition fifty_nine_ticks :: "event list" where
  "fifty_nine_ticks = SelectOption 1 # replicate 59 TimerFires"

text \<open>Only the second question is answered (correctly).\<close>

definition partly_answered :: quiz_state where
  "partly_answered = run quiz3 (initial quiz3) [Jump 1, SelectOption 0]"

text \<open>Only the first question is answered, and the respondent has jumped to the last one.\<close>

definition one_answer_on_last :: quiz_state where
  "one_answer_on_last = run quiz3 (initial quiz3) [SelectOption 1, Jump 2]"

subsection \<open>Well-formed states\<close>

text \<open>
  What holds of every state the component can be in: the current question exists, the
  keys of \<^verbatim>\<open>answers\<close> are in property order, each recorded answer is an option of a
  question of the quiz, the two completion flags agree, and the score is not \<^verbatim>\<open>NaN\<close>.
\<close>

definition invariant :: "quiz \<Rightarrow> quiz_state \<Rightarrow> bool" where
  "invariant q s =
     (currentQuestion s < length (questions q)
      \<and> sorted_wrt (<) (map fst (answers s))
      \<and> (\<forall>(k, v) \<in> set (answers s).
            k < length (questions q) \<and> v < length (options (questions q ! k)))
      \<and> quizCompleted s = showResults s
      \<and> score s \<noteq> NaN)"

section \<open>Auxiliary facts\<close>

subsection \<open>The answers object and the count of correct answers\<close>

lemma map_of_assign: "map_of (assign k v xs) = (map_of xs)(k \<mapsto> v)"
  by (induction xs) (auto simp: fun_eq_iff)

lemma keys_assign: "set (map fst (assign k v xs)) = insert k (set (map fst xs))"
proof -
  have "set (map fst (assign k v xs)) = dom (map_of (assign k v xs))"
    by (simp add: dom_map_of_conv_image_fst)
  also have "\<dots> = insert k (dom (map_of xs))"
    by (simp add: map_of_assign)
  finally show ?thesis by (simp add: dom_map_of_conv_image_fst)
qed

lemma set_assign: "set (assign k v xs) \<subseteq> insert (k, v) (set xs)"
  by (induction xs) (auto split: if_splits)

lemma sorted_assign:
  "sorted_wrt (<) (map fst xs) \<Longrightarrow> sorted_wrt (<) (map fst (assign k v xs))"
proof (induction xs)
  case Nil
  then show ?case by simp
next
  case (Cons x xs)
  obtain k' v' where x: "x = (k', v')" by (cases x)
  show ?case
  proof (cases "k = k'")
    case True
    with Cons.prems x show ?thesis by simp
  next
    case False
    show ?thesis
    proof (cases "k < k'")
      case True
      with Cons.prems x show ?thesis by auto
    next
      case gt: False
      with False have "k' < k" by simp
      moreover have "sorted_wrt (<) (map fst (assign k v xs))"
        using Cons.IH Cons.prems by simp
      moreover have "\<forall>y \<in> set (map fst (assign k v xs)). k' < y"
        using Cons.prems x \<open>k' < k\<close> unfolding keys_assign by auto
      ultimately show ?thesis using x False gt by simp
    qed
  qed
qed

lemma foldl_count:
  "foldl (\<lambda>c (x, i). if P x i then c + 1 else c) (a::nat) xs
     = a + length (filter (\<lambda>(x, i). P x i) xs)"
  by (induction xs arbitrary: a) auto

lemma count_correct_filter:
  "count_correct q a =
     length (filter (\<lambda>(question, index). map_of a index = Some (correctAnswer question))
       (zip (questions q) [0 ..< length (questions q)]))"
  unfolding count_correct_def by (simp add: foldl_count)

lemma count_correct_le: "count_correct q a \<le> length (questions q)"
proof -
  have "count_correct q a \<le> length (zip (questions q) [0 ..< length (questions q)])"
    unfolding count_correct_filter by (rule length_filter_le)
  then show ?thesis by simp
qed

lemma timer_effect_settles: "timer_effect q (timer_effect q s) = timer_effect q s"
  by (simp add: timer_effect_def handleSubmitQuiz_def Let_def)

subsection \<open>Evaluation on examples\<close>

lemmas number_defs =
  js_times_def js_divide_def to_double_def scale2_def round_half_even_def math_round_def
  compute_floorlog

lemmas component_defs =
  initial_def handleAnswerSelect_def handleNext_def handlePrevious_def setCurrentQuestion_def
  handleSubmitQuiz_def handleRestart_def allQuestionsAnswered_def hasOwnProperty_def
  timer_pending_def timer_effect_def tick_def renders_def results_correct_answers_def
  object_values_def mount_def run_def calculateScore_def count_correct_def

lemmas example_defs =
  example_question_def quiz3_def untimed_quiz_def one_minute_quiz_def empty_quiz_def
  answering_1_0_0_def in_progress_1_0_0_def submitted_1_0_0_def partly_answered_def
  one_answer_on_last_def

lemma in_progress_1_0_0_eq:
  "in_progress_1_0_0 =
     \<lparr>currentQuestion = 2, answers = [(0, 1), (1, 0), (2, 0)], timeRemaining = 600,
      quizCompleted = False, showResults = False, score = Num 0, onComplete_calls = []\<rparr>"
  by (simp add: example_defs component_defs)

lemma score_2_of_3: "math_round (js_times (js_divide 2 3) 100) = 67"
  by (simp add: number_defs Let_def)

lemma count_correct_1_0_0: "count_correct quiz3 [(0, 1), (1, 0), (2, 0)] = 2"
  by (simp add: count_correct_def quiz3_def example_question_def)

lemma length_quiz3: "length (questions quiz3) = 3"
  by (simp add: quiz3_def)

lemma calculateScore_1_0_0: "calculateScore quiz3 [(0, 1), (1, 0), (2, 0)] = Num 67"
  unfolding calculateScore_def count_correct_1_0_0 length_quiz3 Let_def score_2_of_3
  by simp

lemma submitted_1_0_0_eq:
  "submitted_1_0_0 =
     \<lparr>currentQuestion = 2, answers = [(0, 1), (1, 0), (2, 0)], timeRemaining = 600,
      quizCompleted = True, showResults = True, score = Num 67,
      onComplete_calls =
        [\<lparr>result_answers = [(0, 1), (1, 0), (2, 0)], result_score = Num 67, timeSpent = 0\<rparr>]\<rparr>"
proof -
  have last: "int (currentQuestion in_progress_1_0_0) = int (length (questions quiz3)) - 1"
    by (simp add: in_progress_1_0_0_eq length_quiz3)
  have all: "allQuestionsAnswered quiz3 in_progress_1_0_0"
    by (simp add: in_progress_1_0_0_eq allQuestionsAnswered_def hasOwnProperty_def quiz3_def)
  have "submitted_1_0_0 = timer_effect quiz3 (handleSubmitQuiz quiz3 in_progress_1_0_0)"
    unfolding submitted_1_0_0_def using last all by (simp add: in_progress_1_0_0_eq)
  also have "\<dots> = handleSubmitQuiz quiz3 in_progress_1_0_0"
    by (simp add: timer_effect_def handleSubmitQuiz_def Let_def)
  finally have s: "submitted_1_0_0 = handleSubmitQuiz quiz3 in_progress_1_0_0" .
  have a: "answers in_progress_1_0_0 = [(0, 1), (1, 0), (2, 0)]"
    by (simp add: in_progress_1_0_0_eq)
  have c: "calculateScore quiz3 (answers in_progress_1_0_0) = Num 67"
    unfolding a by (rule calculateScore_1_0_0)
  show ?thesis
    unfolding s handleSubmitQuiz_def Let_def c
    by (simp add: in_progress_1_0_0_eq quiz3_def)
qed

lemma partly_answered_eq:
  "partly_answered =
     \<lparr>currentQuestion = 1, answers = [(1, 0)], timeRemaining = 600,
      quizCompleted = False, showResults = False, score = Num 0, onComplete_calls = []\<rparr>"
  by (simp add: example_defs component_defs)

lemma one_answer_on_last_eq:
  "one_answer_on_last =
     \<lparr>currentQuestion = 2, answers = [(0, 1)], timeRemaining = 600,
      quizCompleted = False, showResults = False, score = Num 0, onComplete_calls = []\<rparr>"
  by (simp add: example_defs component_defs)

lemma mount_quiz3: "mount quiz3 = Inr (initial quiz3)"
  by (simp add: mount_def renders_def initial_def timer_effect_def quiz3_def)

subsection \<open>The invariant\<close>

lemma calculateScore_number: "questions q \<noteq> [] \<Longrightarrow> calculateScore q a \<noteq> NaN"
  by (simp add: calculateScore_def Let_def)

lemma invariant_handleSubmitQuiz: "invariant q s \<Longrightarrow> invariant q (handleSubmitQuiz q s)"
proof -
  assume inv: "invariant q s"
  then have "questions q \<noteq> []" by (auto simp: invariant_def)
  then have "calculateScore q (answers s) \<noteq> NaN" by (rule calculateScore_number)
  with inv show ?thesis by (simp add: invariant_def handleSubmitQuiz_def Let_def)
qed

lemma invariant_timer_effect: "invariant q s \<Longrightarrow> invariant q (timer_effect q s)"
  by (simp add: timer_effect_def invariant_handleSubmitQuiz)

lemma invariant_timeRemaining: "invariant q (s\<lparr>timeRemaining := t\<rparr>) = invariant q s"
  by (simp add: invariant_def)

lemma invariant_tick: "invariant q s \<Longrightarrow> invariant q (tick q s)"
  by (simp add: tick_def invariant_timer_effect invariant_timeRemaining)

lemma invariant_handleAnswerSelect:
  assumes "invariant q s" and "i < length (questions q)"
    and "k < length (options (questions q ! i))"
  shows "invariant q (handleAnswerSelect i k s)"
proof -
  have "sorted_wrt (<) (map fst (assign i k (answers s)))"
    using assms(1) by (simp add: invariant_def sorted_assign)
  moreover have "\<forall>(j, v) \<in> set (assign i k (answers s)).
      j < length (questions q) \<and> v < length (options (questions q ! j))"
    using assms set_assign [of i k "answers s"] by (auto simp: invariant_def)
  ultimately show ?thesis
    using assms(1) by (simp add: invariant_def handleAnswerSelect_def)
qed

lemma invariant_handleRestart:
  "questions q \<noteq> [] \<Longrightarrow> invariant q (handleRestart q s)"
  by (simp add: invariant_def handleRestart_def)

lemma invariant_dispatch: "invariant q s \<Longrightarrow> invariant q (dispatch q s ev)"
proof (cases ev)
  case (SelectOption index)
  assume "invariant q s"
  then show ?thesis using SelectOption by (simp add: invariant_handleAnswerSelect)
next
  case Previous
  assume "invariant q s"
  then show ?thesis using Previous by (auto simp: invariant_def handlePrevious_def)
next
  case (Jump index)
  assume "invariant q s"
  then show ?thesis using Jump by (auto simp: invariant_def setCurrentQuestion_def)
next
  case Next
  assume "invariant q s"
  then show ?thesis using Next by (auto simp: invariant_def handleNext_def)
next
  case Submit
  assume "invariant q s"
  then show ?thesis
    using Submit by (simp add: invariant_timer_effect invariant_handleSubmitQuiz)
next
  case Restart
  assume inv: "invariant q s"
  then have "questions q \<noteq> []" by (auto simp: invariant_def)
  then show ?thesis
    using Restart inv by (simp add: invariant_timer_effect invariant_handleRestart)
next
  case TimerFires
  assume "invariant q s"
  then show ?thesis using TimerFires by (simp add: invariant_tick)
qed

lemma invariant_mount: "mount q = Inr s \<Longrightarrow> invariant q s"
proof -
  assume m: "mount q = Inr s"
  then have r: "renders q (initial q)" and s: "s = timer_effect q (initial q)"
    by (auto simp: mount_def split: if_splits)
  from r have "invariant q (initial q)"
    by (simp add: renders_def initial_def invariant_def)
  then show ?thesis unfolding s by (rule invariant_timer_effect)
qed

lemma reachable_invariant: "reachable q s \<Longrightarrow> invariant q s"
  by (induction rule: reachable.induct) (simp_all add: invariant_mount invariant_dispatch)

lemma reachable_run: "reachable q s \<Longrightarrow> reachable q (run q s evs)"
  unfolding run_def by (induction evs arbitrary: s) (simp_all add: reachable.step)

lemma reachable_in_progress_1_0_0: "reachable quiz3 in_progress_1_0_0"
  unfolding in_progress_1_0_0_def
  by (rule reachable_run, rule reachable.mounted, rule mount_quiz3)

lemma reachable_submitted_1_0_0: "reachable quiz3 submitted_1_0_0"
  unfolding submitted_1_0_0_def by (rule reachable.step, rule reachable_in_progress_1_0_0)

lemma reachable_partly_answered: "reachable quiz3 partly_answered"
  unfolding partly_answered_def
  by (rule reachable_run, rule reachable.mounted, rule mount_quiz3)

subsection \<open>The count of correct answers, by index\<close>

lemma zip_upt_conv_map: "zip xs [0 ..< length xs] = map (\<lambda>i. (xs ! i, i)) [0 ..< length xs]"
  by (rule nth_equalityI) simp_all

lemma count_correct_indices:
  "count_correct q a =
     length (filter (\<lambda>i. map_of a i = Some (correctAnswer (questions q ! i)))
       [0 ..< length (questions q)])"
  unfolding count_correct_filter zip_upt_conv_map
  by (simp add: filter_map comp_def)

lemma count_correct_card:
  "count_correct q a =
     card {i. i < length (questions q) \<and> map_of a i = Some (correctAnswer (questions q ! i))}"
proof -
  have "distinct (filter (\<lambda>i. map_of a i = Some (correctAnswer (questions q ! i)))
      [0 ..< length (questions q)])"
    by simp
  then have "count_correct q a =
      card (set (filter (\<lambda>i. map_of a i = Some (correctAnswer (questions q ! i)))
        [0 ..< length (questions q)]))"
    unfolding count_correct_indices by (simp only: distinct_card)
  also have "set (filter (\<lambda>i. map_of a i = Some (correctAnswer (questions q ! i)))
        [0 ..< length (questions q)]) =
      {i. i < length (questions q) \<and> map_of a i = Some (correctAnswer (questions q ! i))}"
    by auto
  finally show ?thesis .
qed

lemma count_correct_23: "count_correct quiz40 answers23 = 23"
  by (simp add: count_correct_filter quiz40_def answers23_def example_question_def
        eval_nat_numeral)

subsection \<open>The timer\<close>

lemma timer_effect_submitted: "timer_effect q (handleSubmitQuiz q s) = handleSubmitQuiz q s"
  by (simp add: timer_effect_def handleSubmitQuiz_def Let_def)

lemma tick_expires:
  assumes "\<not> quizCompleted s" and "timeRemaining s = 1"
  shows "tick q s = handleSubmitQuiz q (s\<lparr>timeRemaining := 0\<rparr>)"
  using assms by (simp add: tick_def timer_pending_def timer_effect_def)

lemma mount_untimed:
  assumes "timeLimit q = 0" and "questions q \<noteq> []"
  shows "mount q = Inr (handleSubmitQuiz q (initial q))"
  using assms by (simp add: mount_def renders_def timer_effect_def initial_def)

lemma run_Cons: "run q s (ev # evs) = run q (dispatch q s ev) evs"
  by (simp add: run_def)

lemma run_Nil: "run q s [] = s"
  by (simp add: run_def)

lemma dispatch_in_progress:
  assumes "\<not> quizCompleted s" and "\<not> showResults s"
    and "ev \<noteq> Submit" and "ev \<noteq> Restart"
    and "(if ev = TimerFires then 1 else 0) < timeRemaining s"
  shows "\<not> quizCompleted (dispatch q s ev) \<and> \<not> showResults (dispatch q s ev)
    \<and> timeRemaining (dispatch q s ev) = timeRemaining s - (if ev = TimerFires then 1 else 0)"
proof (cases ev)
  case TimerFires
  with assms show ?thesis by (simp add: tick_def timer_pending_def timer_effect_def)
next
  case Submit
  with assms(3) show ?thesis by simp
next
  case Restart
  with assms(4) show ?thesis by simp
next
  case (SelectOption k)
  with assms(1,2) show ?thesis by (simp add: handleAnswerSelect_def)
next
  case Previous
  with assms(1,2) show ?thesis by (simp add: handlePrevious_def)
next
  case (Jump i)
  with assms(1,2) show ?thesis by (simp add: setCurrentQuestion_def)
next
  case Next
  with assms(1,2) show ?thesis by (simp add: handleNext_def)
qed

lemma run_in_progress:
  assumes "\<not> quizCompleted s" and "\<not> showResults s"
    and "\<forall>ev \<in> set evs. ev \<noteq> Submit \<and> ev \<noteq> Restart"
    and "int (count_list evs TimerFires) < timeRemaining s"
  shows "\<not> quizCompleted (run q s evs) \<and> \<not> showResults (run q s evs)
    \<and> timeRemaining (run q s evs) = timeRemaining s - int (count_list evs TimerFires)"
  using assms
proof (induction evs arbitrary: s)
  case Nil
  then show ?case by (simp add: run_Nil)
next
  case (Cons ev evs)
  let ?d = "if ev = TimerFires then 1 else 0 :: int"
  have c: "int (count_list (ev # evs) TimerFires) = ?d + int (count_list evs TimerFires)"
    by simp
  have e: "ev \<noteq> Submit" "ev \<noteq> Restart" using Cons.prems(3) by simp_all
  have "?d < timeRemaining s" using Cons.prems(4) unfolding c by (simp split: if_splits)
  with Cons.prems(1,2) e
  have d: "\<not> quizCompleted (dispatch q s ev) \<and> \<not> showResults (dispatch q s ev)
      \<and> timeRemaining (dispatch q s ev) = timeRemaining s - ?d"
    by (rule dispatch_in_progress)
  moreover have "\<forall>ev \<in> set evs. ev \<noteq> Submit \<and> ev \<noteq> Restart"
    using Cons.prems(3) by simp
  moreover have "int (count_list evs TimerFires) < timeRemaining (dispatch q s ev)"
    using d Cons.prems(4) unfolding c by simp
  ultimately have "\<not> quizCompleted (run q (dispatch q s ev) evs)
      \<and> \<not> showResults (run q (dispatch q s ev) evs)
      \<and> timeRemaining (run q (dispatch q s ev) evs)
          = timeRemaining (dispatch q s ev) - int (count_list evs TimerFires)"
    by (intro Cons.IH) simp_all
  with d show ?case unfolding run_Cons c by simp
qed

lemma ticks_after_submission:
  "quizCompleted s \<Longrightarrow> run q s (replicate n TimerFires) = s"
  by (induction n) (simp_all add: run_Nil run_Cons tick_def timer_pending_def)

lemma count_list_replicate: "count_list (replicate n x) x = n"
  by (induction n) simp_all

subsection \<open>The quiz creator's validation\<close>

lemma validateQuiz_nonempty: "validateQuiz q \<Longrightarrow> questions q \<noteq> []"
  by (auto simp: validateQuiz_def validateQuiz_errors_def split: if_splits)

subsection \<open>The results view\<close>

lemma answered_keys:
  assumes "invariant q s" and "allQuestionsAnswered q s"
  shows "map fst (answers s) = [0 ..< length (questions q)]"
proof -
  have "set (map fst (answers s)) \<subseteq> {0 ..< length (questions q)}"
    using assms(1) by (auto simp: invariant_def)
  moreover have "{0 ..< length (questions q)} \<subseteq> set (map fst (answers s))"
    using assms(2) by (auto simp: allQuestionsAnswered_def hasOwnProperty_def list_all_iff)
  ultimately have "set (map fst (answers s)) = set [0 ..< length (questions q)]"
    by auto
  moreover have "sorted_wrt (<) (map fst (answers s))"
    using assms(1) by (simp add: invariant_def)
  moreover have "sorted_wrt (<) [0 ..< length (questions q)]"
    by (rule sorted_wrt_upt)
  ultimately show ?thesis
    by (intro strict_sorted_equal) simp_all
qed

lemma map_of_at_position:
  assumes "map fst a = [0 ..< n]" and "i < n"
  shows "map_of a i = Some (snd (a ! i))"
proof -
  have len: "length a = n" using assms(1) by (metis length_map length_upt diff_zero)
  have "fst (a ! i) = i"
    using assms len by (metis nth_map nth_upt add_0)
  then have "(i, snd (a ! i)) \<in> set a"
    using assms(2) len by (metis nth_mem prod.collapse)
  moreover have "distinct (map fst a)" unfolding assms(1) by simp
  ultimately show ?thesis by (simp add: map_of_eq_Some_iff)
qed

lemma results_count_all_answered:
  assumes "invariant q s" and "allQuestionsAnswered q s"
  shows "results_correct_answers q (answers s) = Inr (count_correct q (answers s))"
proof -
  let ?n = "length (questions q)"
  let ?a = "answers s"
  have keys: "map fst ?a = [0 ..< ?n]" using assms by (rule answered_keys)
  then have len: "length ?a = ?n" by (metis length_map length_upt diff_zero)
  have "zip (map snd ?a) [0 ..< length (map snd ?a)]
      = map (\<lambda>i. (map snd ?a ! i, i)) [0 ..< length (map snd ?a)]"
    by (rule zip_upt_conv_map)
  then have "length (filter (\<lambda>(answer, index). answer = correctAnswer (questions q ! index))
        (zip (map snd ?a) [0 ..< length (map snd ?a)]))
      = length (filter (\<lambda>i. map snd ?a ! i = correctAnswer (questions q ! i)) [0 ..< ?n])"
    by (simp add: filter_map comp_def len)
  also have "filter (\<lambda>i. map snd ?a ! i = correctAnswer (questions q ! i)) [0 ..< ?n]
      = filter (\<lambda>i. map_of ?a i = Some (correctAnswer (questions q ! i))) [0 ..< ?n]"
  proof (rule filter_cong [OF refl])
    fix i assume "i \<in> set [0 ..< ?n]"
    then have i: "i < ?n" by simp
    with keys have "map_of ?a i = Some (snd (?a ! i))" by (rule map_of_at_position)
    moreover have "map snd ?a ! i = snd (?a ! i)" using i len by simp
    ultimately show "(map snd ?a ! i = correctAnswer (questions q ! i))
        = (map_of ?a i = Some (correctAnswer (questions q ! i)))"
      by simp
  qed
  also have "length \<dots> = count_correct q ?a" by (simp add: count_correct_indices)
  finally show ?thesis
    by (simp add: results_correct_answers_def object_values_def len Let_def)
qed

text \<open>
  Every state reached through the controls renders, so no event of \<open>dispatch\<close> ends in
  a \<^verbatim>\<open>TypeError\<close>.
\<close>

lemma reachable_renders: "reachable q s \<Longrightarrow> renders q s"
proof -
  assume "reachable q s"
  then have inv: "invariant q s" by (rule reachable_invariant)
  then have "distinct (map fst (answers s))"
    by (simp add: invariant_def strict_sorted_iff)
  then have "length (answers s) = card (set (map fst (answers s)))"
    by (metis distinct_card length_map)
  also have "\<dots> \<le> card {0 ..< length (questions q)}"
    using inv by (intro card_mono) (auto simp: invariant_def)
  finally have "length (answers s) \<le> length (questions q)" by simp
  with inv show ?thesis
    by (simp add: renders_def results_correct_answers_def object_values_def Let_def
        invariant_def)
qed

text \<open>
  The Submit button is rendered on the last question only and is disabled unless all
  questions are answered: with one of three questions answered the click does nothing.
\<close>

lemma submit_control_disabled:
  "\<not> allQuestionsAnswered quiz3 one_answer_on_last
   \<and> dispatch quiz3 one_answer_on_last Submit = one_answer_on_last"
  by (simp add: one_answer_on_last_eq allQuestionsAnswered_def hasOwnProperty_def quiz3_def)

text \<open>For the score, a question without a recorded answer is a question answered wrongly.\<close>

lemma count_correct_unanswered_as_incorrect:
  assumes "map_of a i = None" and "v \<noteq> correctAnswer (questions q ! i)"
  shows "count_correct q (assign i v a) = count_correct q a"
proof -
  have "filter (\<lambda>j. map_of (assign i v a) j = Some (correctAnswer (questions q ! j)))
          [0 ..< length (questions q)]
      = filter (\<lambda>j. map_of a j = Some (correctAnswer (questions q ! j)))
          [0 ..< length (questions q)]"
    using assms by (intro filter_cong [OF refl]) (simp add: map_of_assign)
  then show ?thesis by (simp only: count_correct_indices)
qed

lemma score_1_of_3: "math_round (js_times (js_divide 1 3) 100) = 33"
  by (simp add: number_defs Let_def)

lemma count_correct_first_only: "count_correct quiz3 [(0, 1)] = 1"
  by (simp add: count_correct_def quiz3_def example_question_def)

lemma calculateScore_first_only: "calculateScore quiz3 [(0, 1)] = Num 33"
  unfolding calculateScore_def count_correct_first_only length_quiz3 Let_def score_1_of_3
  by simp

section \<open>The claims\<close>

subsection \<open>C1: the untimed quiz\<close>

text \<open>
  C1 says that with \<^verbatim>\<open>timeLimit = 0\<close> ticks never submit the quiz, which stays in
  progress until it is submitted by hand. The code, at the input \<open>untimed_quiz\<close>:
  \<^verbatim>\<open>timeRemaining\<close> starts at 0, and the timer effect, run after the first render,
  finds \<^verbatim>\<open>timeRemaining === 0 && !quizCompleted\<close> and calls \<^verbatim>\<open>handleSubmitQuiz\<close>. The
  quiz is submitted at mount, with no answer and score 0, before any second has passed.
  The question view hides the clock unless \<^verbatim>\<open>quiz.timeLimit > 0\<close>, so a quiz without a
  time limit is foreseen there; the effect does not tell it from an expired one.
\<close>

theorem untimed_quiz_is_submitted_at_mount:
  "timeLimit untimed_quiz = 0
   \<and> mount untimed_quiz =
       Inr \<lparr>currentQuestion = 0, answers = [], timeRemaining = 0, quizCompleted = True,
            showResults = True, score = Num 0,
            onComplete_calls = [\<lparr>result_answers = [], result_score = Num 0, timeSpent = 0\<rparr>]\<rparr>"
proof -
  have c: "count_correct untimed_quiz [] = 0"
    by (simp add: count_correct_def untimed_quiz_def quiz3_def)
  have l: "length (questions untimed_quiz) = 3"
    by (simp add: untimed_quiz_def quiz3_def)
  have z: "math_round (js_times (js_divide 0 3) 100) = 0"
    by (simp add: number_defs)
  have s: "calculateScore untimed_quiz [] = Num 0"
    unfolding calculateScore_def c l Let_def z by simp
  have t: "timeLimit untimed_quiz = 0" by (simp add: untimed_quiz_def)
  have q: "questions untimed_quiz \<noteq> []" by (simp add: untimed_quiz_def quiz3_def)
  have a: "answers (initial untimed_quiz) = []" by (simp add: initial_def)
  have "mount untimed_quiz = Inr (handleSubmitQuiz untimed_quiz (initial untimed_quiz))"
    using t q by (rule mount_untimed)
  also have "handleSubmitQuiz untimed_quiz (initial untimed_quiz) =
      \<lparr>currentQuestion = 0, answers = [], timeRemaining = 0, quizCompleted = True,
       showResults = True, score = Num 0,
       onComplete_calls = [\<lparr>result_answers = [], result_score = Num 0, timeSpent = 0\<rparr>]\<rparr>"
    unfolding handleSubmitQuiz_def a s Let_def by (simp add: initial_def t)
  finally show ?thesis using t by simp
qed

subsection \<open>C2: submitting with unanswered questions\<close>

text \<open>
  C2. \<^verbatim>\<open>handleSubmitQuiz\<close> checks nothing about the answers: in every state, whatever
  questions are unanswered, it completes the quiz, keeps the answers, sets the score to
  \<open>calculateScore\<close> of them and passes both to \<^verbatim>\<open>onComplete\<close>; the timer calls it when
  the last second passes. The score is the rounded percentage of \<open>count_correct\<close>,
  which counts exactly the questions whose recorded answer is the correct option; so
  a question without a recorded answer scores as one answered wrongly: recording a
  wrong answer for it leaves the score as it is. (That the Submit button is disabled
  until all questions are answered is the view's doing, \<open>submit_control_disabled\<close>.)
\<close>

theorem handleSubmitQuiz_ignores_completeness:
  "quizCompleted (handleSubmitQuiz q s)
   \<and> showResults (handleSubmitQuiz q s)
   \<and> answers (handleSubmitQuiz q s) = answers s
   \<and> score (handleSubmitQuiz q s) = calculateScore q (answers s)
   \<and> onComplete_calls (handleSubmitQuiz q s) = onComplete_calls s @
        [\<lparr>result_answers = answers s, result_score = calculateScore q (answers s),
          timeSpent = timeLimit q * 60 - timeRemaining s\<rparr>]
   \<and> (\<not> quizCompleted s \<and> timeRemaining s = 1 \<longrightarrow>
        tick q s = handleSubmitQuiz q (s\<lparr>timeRemaining := 0\<rparr>))
   \<and> calculateScore q a =
       (if length (questions q) = 0 then NaN
        else Num (int (math_round
               (js_times (js_divide (count_correct q a) (length (questions q))) 100))))
   \<and> count_correct q a =
       card {i. i < length (questions q)
                \<and> map_of a i = Some (correctAnswer (questions q ! i))}
   \<and> (map_of a i = None \<and> v \<noteq> correctAnswer (questions q ! i) \<longrightarrow>
        calculateScore q (assign i v a) = calculateScore q a)"
proof -
  have "\<not> quizCompleted s \<and> timeRemaining s = 1 \<Longrightarrow>
      tick q s = handleSubmitQuiz q (s\<lparr>timeRemaining := 0\<rparr>)"
    by (simp add: tick_expires)
  moreover have "map_of a i = None \<and> v \<noteq> correctAnswer (questions q ! i) \<Longrightarrow>
      calculateScore q (assign i v a) = calculateScore q a"
    by (simp add: calculateScore_def count_correct_unanswered_as_incorrect)
  moreover have "calculateScore q a =
       (if length (questions q) = 0 then NaN
        else Num (int (math_round
               (js_times (js_divide (count_correct q a) (length (questions q))) 100))))"
    by (simp add: calculateScore_def Let_def)
  moreover have "quizCompleted (handleSubmitQuiz q s)"
    and "showResults (handleSubmitQuiz q s)"
    and "answers (handleSubmitQuiz q s) = answers s"
    and "score (handleSubmitQuiz q s) = calculateScore q (answers s)"
    and "onComplete_calls (handleSubmitQuiz q s) = onComplete_calls s @
        [\<lparr>result_answers = answers s, result_score = calculateScore q (answers s),
          timeSpent = timeLimit q * 60 - timeRemaining s\<rparr>]"
    by (simp_all add: handleSubmitQuiz_def Let_def)
  ultimately show ?thesis
    using count_correct_card [of q a] by blast
qed

text \<open>
  Witness for C2: \<open>quiz3\<close> in progress with only the first question answered is
  submitted with score 33, by the handler and by the timer, and a wrong answer to the
  second question gives 33 as well.
\<close>

theorem handleSubmitQuiz_ignores_completeness_witness:
  "\<not> quizCompleted one_answer_on_last
   \<and> answers one_answer_on_last = [(0, 1)]
   \<and> \<not> allQuestionsAnswered quiz3 one_answer_on_last
   \<and> quizCompleted (handleSubmitQuiz quiz3 one_answer_on_last)
   \<and> score (handleSubmitQuiz quiz3 one_answer_on_last) = Num 33
   \<and> tick quiz3 (one_answer_on_last\<lparr>timeRemaining := 1\<rparr>)
       = handleSubmitQuiz quiz3 (one_answer_on_last\<lparr>timeRemaining := 0\<rparr>)
   \<and> map_of [(0 :: nat, 1 :: nat)] 1 = None
   \<and> 1 \<noteq> correctAnswer (questions quiz3 ! 1)
   \<and> calculateScore quiz3 (assign 1 1 [(0, 1)]) = Num 33"
proof -
  have a: "answers one_answer_on_last = [(0, 1)]" by (simp add: one_answer_on_last_eq)
  have b: "\<not> allQuestionsAnswered quiz3 one_answer_on_last"
    by (simp add: one_answer_on_last_eq allQuestionsAnswered_def hasOwnProperty_def quiz3_def)
  have c: "\<not> quizCompleted (one_answer_on_last\<lparr>timeRemaining := 1\<rparr>)"
    "\<not> quizCompleted one_answer_on_last"
    "timeRemaining (one_answer_on_last\<lparr>timeRemaining := 1\<rparr>) = 1"
    by (simp_all add: one_answer_on_last_eq)
  have d: "map_of [(0, 1 :: nat)] (1 :: nat) = None" by simp
  have e: "1 \<noteq> correctAnswer (questions quiz3 ! 1)"
    by (simp add: quiz3_def example_question_def)
  have f: "calculateScore quiz3 (answers one_answer_on_last) = Num 33"
    unfolding a by (rule calculateScore_first_only)
  have g: "calculateScore quiz3 (assign 1 1 [(0, 1)]) = calculateScore quiz3 [(0, 1)]"
    using d e handleSubmitQuiz_ignores_completeness [of quiz3 one_answer_on_last "[(0, 1)]" 1 1]
    by blast
  have h: "score (handleSubmitQuiz quiz3 one_answer_on_last) = Num 33"
    using f handleSubmitQuiz_ignores_completeness [of quiz3 one_answer_on_last "[]" 0 0]
    by simp
  have i: "quizCompleted (handleSubmitQuiz quiz3 one_answer_on_last)"
    using handleSubmitQuiz_ignores_completeness [of quiz3 one_answer_on_last "[]" 0 0]
    by blast
  have j: "tick quiz3 (one_answer_on_last\<lparr>timeRemaining := 1\<rparr>)
       = handleSubmitQuiz quiz3 (one_answer_on_last\<lparr>timeRemaining := 0\<rparr>)"
    using c handleSubmitQuiz_ignores_completeness
      [of quiz3 "one_answer_on_last\<lparr>timeRemaining := 1\<rparr>" "[]" 0 0]
    by simp
  show ?thesis
    using a b c(2) d e g h i j calculateScore_first_only by simp
qed

subsection \<open>C3: out-of-range indices\<close>

text \<open>
  C3 as stated, refuted. The claim has \<open>selectAnswer\<close> and \<open>goToQuestion\<close> fail on an
  index out of range and leave the state unchanged. \<^verbatim>\<open>handleAnswerSelect\<close> and
  \<^verbatim>\<open>setCurrentQuestion\<close> check nothing and raise nothing: on the three-question quiz,
  question index 4 gets an answer and becomes the current question.
\<close>

theorem out_of_range_index_is_stored:
  "handleAnswerSelect 4 0 (initial quiz3) = (initial quiz3)\<lparr>answers := [(4, 0)]\<rparr>
   \<and> handleAnswerSelect 4 0 (initial quiz3) \<noteq> initial quiz3
   \<and> setCurrentQuestion 4 (initial quiz3) = (initial quiz3)\<lparr>currentQuestion := 4\<rparr>
   \<and> setCurrentQuestion 4 (initial quiz3) \<noteq> initial quiz3
   \<and> length (questions quiz3) = 3"
  by (simp add: handleAnswerSelect_def setCurrentQuestion_def initial_def quiz3_def)

text \<open>
  C3 amended. There is no failure on an index: \<^verbatim>\<open>handleAnswerSelect\<close> records the
  answer and \<^verbatim>\<open>setCurrentQuestion\<close> sets the current question whatever the indices
  are. The indices are kept in range by the controls, which exist for valid indices
  only: in every state reached from mounting through the rendered controls,
  \<^verbatim>\<open>currentQuestion\<close> is the index of a question, and every recorded answer has the index
  of a question as its key and the index of one of that question's options as its value.
\<close>

theorem indices_in_range_by_construction:
  "map_of (answers (handleAnswerSelect i k s)) i = Some k
   \<and> currentQuestion (setCurrentQuestion i s) = i
   \<and> (reachable q s \<longrightarrow>
        currentQuestion s < length (questions q)
        \<and> (\<forall>(j, v) \<in> set (answers s).
              j < length (questions q) \<and> v < length (options (questions q ! j))))"
proof -
  have "reachable q s \<Longrightarrow> invariant q s" by (rule reachable_invariant)
  then show ?thesis
    by (simp add: handleAnswerSelect_def setCurrentQuestion_def map_of_assign invariant_def)
qed

text \<open>Witness for C3 amended: the state reached by answering 1, 0, 0.\<close>

theorem indices_in_range_witness:
  "reachable quiz3 in_progress_1_0_0
   \<and> currentQuestion in_progress_1_0_0 = 2
   \<and> answers in_progress_1_0_0 = [(0, 1), (1, 0), (2, 0)]
   \<and> currentQuestion in_progress_1_0_0 < length (questions quiz3)
   \<and> list_all (\<lambda>(j, v). j < length (questions quiz3)
                   \<and> v < length (options (questions quiz3 ! j)))
         (answers in_progress_1_0_0)"
  using reachable_in_progress_1_0_0
    indices_in_range_by_construction [of 0 0 in_progress_1_0_0 quiz3]
  by (simp add: in_progress_1_0_0_eq list_all_iff)

subsection \<open>C4: the empty quiz\<close>

text \<open>
  C4 as stated, refuted. The claim has session creation reject an empty question list
  by validation. \<^verbatim>\<open>QuizTaker\<close> validates nothing: for \<open>empty_quiz\<close> the state is
  initialised like any other, and what fails is the first render, with a
  \<^verbatim>\<open>TypeError\<close> on \<^verbatim>\<open>quiz.questions[0].question\<close>. \<^verbatim>\<open>calculateScore\<close> has no guard
  either: on the empty quiz it yields \<^verbatim>\<open>NaN\<close>.
\<close>

theorem empty_quiz_fails_in_render:
  "initial empty_quiz =
     \<lparr>currentQuestion = 0, answers = [], timeRemaining = 600, quizCompleted = False,
      showResults = False, score = Num 0, onComplete_calls = []\<rparr>
   \<and> \<not> renders empty_quiz (initial empty_quiz)
   \<and> mount empty_quiz = Inl TypeError
   \<and> calculateScore empty_quiz [] = NaN"
  by (simp add: mount_def renders_def initial_def calculateScore_def empty_quiz_def quiz3_def)

text \<open>
  C4 amended. A quiz without questions is rejected where quizzes are made, not where
  they are taken: \<^verbatim>\<open>validateQuiz\<close> of the quiz creator accepts only a quiz with at least
  one question. \<^verbatim>\<open>QuizTaker\<close> mounts on every quiz with at least one question, and in
  every state reached from there the quiz has at least one question and the score is a
  number.
\<close>

theorem empty_quiz_rejected_by_creator:
  "(validateQuiz q \<longrightarrow> 1 \<le> length (questions q))
   \<and> (1 \<le> length (questions q) \<longrightarrow> (\<exists>s. mount q = Inr s))
   \<and> (reachable q s \<longrightarrow> 1 \<le> length (questions q) \<and> score s \<noteq> NaN)"
proof -
  have "validateQuiz q \<Longrightarrow> 1 \<le> length (questions q)"
    using validateQuiz_nonempty [of q] by (cases "questions q") simp_all
  moreover have "1 \<le> length (questions q) \<Longrightarrow> \<exists>s. mount q = Inr s"
    by (cases "questions q") (simp_all add: mount_def renders_def initial_def)
  moreover have "reachable q s \<Longrightarrow> 1 \<le> length (questions q) \<and> score s \<noteq> NaN"
  proof -
    assume "reachable q s"
    then have "invariant q s" by (rule reachable_invariant)
    then show ?thesis by (auto simp: invariant_def)
  qed
  ultimately show ?thesis by blast
qed

text \<open>
  Witness for C4 amended: \<open>quiz3\<close> passes the creator's validation and mounts, the
  empty quiz does not pass, and the submitted state of \<open>quiz3\<close> has score 67.
\<close>

theorem empty_quiz_rejected_by_creator_witness:
  "validateQuiz quiz3 \<and> \<not> validateQuiz empty_quiz
   \<and> length (questions quiz3) = 3 \<and> mount quiz3 = Inr (initial quiz3)
   \<and> reachable quiz3 submitted_1_0_0 \<and> score submitted_1_0_0 = Num 67"
proof -
  have v: "validateQuiz quiz3"
    by (simp add: validateQuiz_def validateQuiz_errors_def is_blank_def white_space_def
        ascii_def quiz3_def example_question_def)
  have e: "\<not> validateQuiz empty_quiz"
    by (simp add: validateQuiz_def validateQuiz_errors_def empty_quiz_def)
  show ?thesis
    using v e mount_quiz3 reachable_submitted_1_0_0
      empty_quiz_rejected_by_creator [of quiz3 submitted_1_0_0]
    by (simp add: submitted_1_0_0_eq length_quiz3)
qed

subsection \<open>C5: the score\<close>

text \<open>
  C5 says that the score is \<open>round (100 * correctCount / questionCount)\<close> for every
  session, and 67 for the answers 1, 0, 0 to \<open>quiz3\<close>. The code computes
  \<^verbatim>\<open>Math.round((correct / quiz.questions.length) * 100)\<close> on doubles. For the answers
  1, 0, 0 that is 67. For 23 correct answers out of 40 the quotient 23/40 is not a
  double, its nearest double times 100 rounds to the double just below 57.5, and the
  score is 57, where \<open>round (100 * 23 / 40) = round 57.5 = 58\<close>.
\<close>

theorem score_of_23_correct_in_40:
  "length (questions quiz40) = 40
   \<and> count_correct quiz40 answers23 = 23
   \<and> calculateScore quiz40 answers23 = Num 57
   \<and> spec_score 23 40 = 58
   \<and> calculateScore quiz3 [(0, 1), (1, 0), (2, 0)] = Num 67
   \<and> spec_score 2 3 = 67"
proof -
  have l: "length (questions quiz40) = 40" by (simp add: quiz40_def)
  have z: "math_round (js_times (js_divide 23 40) 100) = 57"
    by (simp add: number_defs Let_def)
  have s: "calculateScore quiz40 answers23 = Num 57"
    unfolding calculateScore_def count_correct_23 l Let_def z by simp
  show ?thesis
    using l s count_correct_23 calculateScore_1_0_0 by (simp add: spec_score_def)
qed

subsection \<open>C6: the one-minute timer\<close>

text \<open>
  C6. A quiz with \<^verbatim>\<open>timeLimit = 1\<close> starts with 60 seconds. Let the respondent select
  answers and move between questions at will, without submitting. As long as at most
  59 seconds have passed the quiz is in progress, with as many seconds fewer left.
  When 59 have passed, the next second submits the quiz with the answers recorded at
  that point, scored by \<open>calculateScore\<close>; and any number of seconds after that change
  nothing.
\<close>

theorem one_minute_timer:
  assumes "timeLimit q = 1" and "mount q = Inr s0"
    and "\<forall>ev \<in> set evs. ev \<noteq> Submit \<and> ev \<noteq> Restart"
  shows "timeRemaining s0 = 60
    \<and> (count_list evs TimerFires \<le> 59 \<longrightarrow>
         \<not> quizCompleted (run q s0 evs)
         \<and> timeRemaining (run q s0 evs) = 60 - int (count_list evs TimerFires))
    \<and> (count_list evs TimerFires = 59 \<longrightarrow>
         dispatch q (run q s0 evs) TimerFires
           = handleSubmitQuiz q ((run q s0 evs)\<lparr>timeRemaining := 0\<rparr>)
         \<and> quizCompleted (dispatch q (run q s0 evs) TimerFires)
         \<and> answers (dispatch q (run q s0 evs) TimerFires) = answers (run q s0 evs)
         \<and> score (dispatch q (run q s0 evs) TimerFires)
             = calculateScore q (answers (run q s0 evs))
         \<and> (\<forall>n. run q (dispatch q (run q s0 evs) TimerFires) (replicate n TimerFires)
                 = dispatch q (run q s0 evs) TimerFires))"
proof -
  from assms(2) have s0: "s0 = timer_effect q (initial q)"
    by (simp add: mount_def split: if_splits)
  have i: "timeRemaining (initial q) = 60" "\<not> quizCompleted (initial q)"
    "\<not> showResults (initial q)"
    using assms(1) by (simp_all add: initial_def)
  then have s0': "s0 = initial q" unfolding s0 by (simp add: timer_effect_def)
  have start: "timeRemaining s0 = 60" "\<not> quizCompleted s0" "\<not> showResults s0"
    unfolding s0' by (rule i)+
  have before: "\<not> quizCompleted (run q s0 evs)
      \<and> \<not> showResults (run q s0 evs)
      \<and> timeRemaining (run q s0 evs) = 60 - int (count_list evs TimerFires)"
    if "count_list evs TimerFires \<le> 59"
  proof -
    have "int (count_list evs TimerFires) < timeRemaining s0"
      using that start(1) by simp
    with start(2,3) assms(3) show ?thesis
      using run_in_progress [of s0 evs q] start(1) by simp
  qed
  have at: "dispatch q (run q s0 evs) TimerFires
           = handleSubmitQuiz q ((run q s0 evs)\<lparr>timeRemaining := 0\<rparr>)
         \<and> quizCompleted (dispatch q (run q s0 evs) TimerFires)
         \<and> answers (dispatch q (run q s0 evs) TimerFires) = answers (run q s0 evs)
         \<and> score (dispatch q (run q s0 evs) TimerFires)
             = calculateScore q (answers (run q s0 evs))
         \<and> (\<forall>n. run q (dispatch q (run q s0 evs) TimerFires) (replicate n TimerFires)
                 = dispatch q (run q s0 evs) TimerFires)"
    if c: "count_list evs TimerFires = 59"
  proof -
    from c have "count_list evs TimerFires \<le> 59" by simp
    from before [OF this] c
    have p: "\<not> quizCompleted (run q s0 evs)" "timeRemaining (run q s0 evs) = 1"
      by simp_all
    then have t: "dispatch q (run q s0 evs) TimerFires
        = handleSubmitQuiz q ((run q s0 evs)\<lparr>timeRemaining := 0\<rparr>)"
      by (simp add: tick_expires)
    have d: "quizCompleted (dispatch q (run q s0 evs) TimerFires)"
      unfolding t by (simp add: handleSubmitQuiz_def Let_def)
    have "\<forall>n. run q (dispatch q (run q s0 evs) TimerFires) (replicate n TimerFires)
                 = dispatch q (run q s0 evs) TimerFires"
      using d by (simp add: ticks_after_submission)
    moreover have "answers (dispatch q (run q s0 evs) TimerFires) = answers (run q s0 evs)"
      "score (dispatch q (run q s0 evs) TimerFires) = calculateScore q (answers (run q s0 evs))"
      unfolding t by (simp_all add: handleSubmitQuiz_def Let_def)
    ultimately show ?thesis using t d by blast
  qed
  show ?thesis using start(1) before at by blast
qed

text \<open>
  Witness for C6: on the one-minute quiz the respondent answers the first question
  and 59 seconds pass; the quiz is in progress with one second left, and the next
  second completes it.
\<close>

theorem one_minute_timer_witness:
  "timeLimit one_minute_quiz = 1
   \<and> mount one_minute_quiz = Inr (initial one_minute_quiz)
   \<and> list_all (\<lambda>ev. ev \<noteq> Submit \<and> ev \<noteq> Restart) fifty_nine_ticks
   \<and> count_list fifty_nine_ticks TimerFires = 59
   \<and> \<not> quizCompleted (run one_minute_quiz (initial one_minute_quiz) fifty_nine_ticks)
   \<and> timeRemaining (run one_minute_quiz (initial one_minute_quiz) fifty_nine_ticks) = 1
   \<and> quizCompleted
       (dispatch one_minute_quiz
         (run one_minute_quiz (initial one_minute_quiz) fifty_nine_ticks) TimerFires)"
proof -
  have a: "timeLimit one_minute_quiz = 1" by (simp add: one_minute_quiz_def)
  have b: "mount one_minute_quiz = Inr (initial one_minute_quiz)"
    by (simp add: mount_def renders_def initial_def timer_effect_def one_minute_quiz_def
        quiz3_def)
  have c: "\<forall>ev \<in> set fifty_nine_ticks. ev \<noteq> Submit \<and> ev \<noteq> Restart"
    by (simp add: fifty_nine_ticks_def)
  have d: "count_list fifty_nine_ticks TimerFires = 59"
    by (simp add: fifty_nine_ticks_def count_list_replicate)
  show ?thesis
    using a b c d one_minute_timer [OF a b c]
    by (simp add: handleSubmitQuiz_def Let_def list_all_iff)
qed

subsection \<open>C7: the submitted quiz is terminal\<close>

text \<open>
  C7 as stated, refuted. The claim has no operation change the answers or the current
  question of a submitted quiz. \<^verbatim>\<open>handleAnswerSelect\<close>, \<^verbatim>\<open>setCurrentQuestion\<close>,
  \<^verbatim>\<open>handlePrevious\<close> and \<^verbatim>\<open>handleNext\<close> do not look at \<^verbatim>\<open>quizCompleted\<close>: applied to
  the reachable state \<open>submitted_1_0_0\<close> they change the answer of the first question
  from 1 to 2 and move the current question from 2 to 0, to 1 and back to 2.
\<close>

theorem handlers_change_submitted_state:
  "reachable quiz3 submitted_1_0_0
   \<and> quizCompleted submitted_1_0_0
   \<and> answers submitted_1_0_0 = [(0, 1), (1, 0), (2, 0)]
   \<and> currentQuestion submitted_1_0_0 = 2
   \<and> answers (handleAnswerSelect 0 2 submitted_1_0_0) = [(0, 2), (1, 0), (2, 0)]
   \<and> currentQuestion (setCurrentQuestion 0 submitted_1_0_0) = 0
   \<and> currentQuestion (handlePrevious submitted_1_0_0) = 1
   \<and> currentQuestion (handleNext quiz3 (handlePrevious submitted_1_0_0)) = 2"
  using reachable_submitted_1_0_0
  by (simp add: submitted_1_0_0_eq handleAnswerSelect_def setCurrentQuestion_def
      handlePrevious_def handleNext_def length_quiz3)

text \<open>
  C7 amended. Once the quiz is completed, the passing of a second changes nothing (the
  timer effect is guarded by \<^verbatim>\<open>!quizCompleted\<close>), and in every state the component can
  reach no event of its controls other than the Retake button changes the state: the
  results view renders no control for selecting an answer, jumping, Next or Previous.
  The score is changed by none of the four handlers, in any state;
  \<^verbatim>\<open>handleAnswerSelect\<close> leaves the current question and the three navigation handlers
  leave the answers. The handlers have no guard of their own on \<^verbatim>\<open>quizCompleted\<close>.
\<close>

theorem submitted_is_terminal_through_controls:
  "(quizCompleted s \<longrightarrow> tick q s = s)
   \<and> (reachable q s \<and> quizCompleted s \<and> ev \<noteq> Restart \<longrightarrow> dispatch q s ev = s)
   \<and> score (handleAnswerSelect i k s) = score s
   \<and> score (setCurrentQuestion i s) = score s
   \<and> score (handleNext q s) = score s
   \<and> score (handlePrevious s) = score s
   \<and> currentQuestion (handleAnswerSelect i k s) = currentQuestion s
   \<and> answers (setCurrentQuestion i s) = answers s
   \<and> answers (handleNext q s) = answers s
   \<and> answers (handlePrevious s) = answers s"
proof -
  have "quizCompleted s \<Longrightarrow> tick q s = s"
    by (simp add: tick_def timer_pending_def)
  moreover have "dispatch q s ev = s"
    if "reachable q s \<and> quizCompleted s \<and> ev \<noteq> Restart"
  proof -
    from that have "invariant q s" by (simp add: reachable_invariant)
    with that have shown: "showResults s" by (simp add: invariant_def)
    show ?thesis
    proof (cases ev)
      case TimerFires
      with that show ?thesis by (simp add: tick_def timer_pending_def)
    next
      case Restart
      with that show ?thesis by simp
    qed (simp_all add: shown)
  qed
  moreover have "score (handleAnswerSelect i k s) = score s"
    "score (setCurrentQuestion i s) = score s"
    "score (handleNext q s) = score s"
    "score (handlePrevious s) = score s"
    "currentQuestion (handleAnswerSelect i k s) = currentQuestion s"
    "answers (setCurrentQuestion i s) = answers s"
    "answers (handleNext q s) = answers s"
    "answers (handlePrevious s) = answers s"
    by (simp_all add: handleAnswerSelect_def setCurrentQuestion_def handleNext_def
        handlePrevious_def)
  ultimately show ?thesis by blast
qed

text \<open>Witness for C7 amended: the quiz submitted with the answers 1, 0, 0.\<close>

theorem submitted_is_terminal_through_controls_witness:
  "reachable quiz3 submitted_1_0_0 \<and> quizCompleted submitted_1_0_0
   \<and> tick quiz3 submitted_1_0_0 = submitted_1_0_0
   \<and> dispatch quiz3 submitted_1_0_0 (SelectOption 2) = submitted_1_0_0
   \<and> dispatch quiz3 submitted_1_0_0 (Jump 0) = submitted_1_0_0
   \<and> dispatch quiz3 submitted_1_0_0 Next = submitted_1_0_0
   \<and> dispatch quiz3 submitted_1_0_0 Previous = submitted_1_0_0
   \<and> dispatch quiz3 submitted_1_0_0 TimerFires = submitted_1_0_0"
proof -
  have r: "reachable quiz3 submitted_1_0_0" by (rule reachable_submitted_1_0_0)
  have c: "quizCompleted submitted_1_0_0" by (simp add: submitted_1_0_0_eq)
  show ?thesis
    using r c
      submitted_is_terminal_through_controls [of submitted_1_0_0 quiz3 "SelectOption 2"]
      submitted_is_terminal_through_controls [of submitted_1_0_0 quiz3 "Jump 0"]
      submitted_is_terminal_through_controls [of submitted_1_0_0 quiz3 Next]
      submitted_is_terminal_through_controls [of submitted_1_0_0 quiz3 Previous]
      submitted_is_terminal_through_controls [of submitted_1_0_0 quiz3 TimerFires]
    by simp
qed

subsection \<open>C8: restart\<close>

text \<open>
  C8. \<^verbatim>\<open>handleRestart\<close> gives, in every state, the state of a fresh attempt at the same
  quiz: in progress, no answers, first question, the full time, score 0. It does not
  touch the results already passed to \<^verbatim>\<open>onComplete\<close>: after a submission and a restart
  the record of the finished attempt, with its answers and its score, is the one that
  was passed at submission. On a completed quiz with a time limit other than 0 the
  Retake button does exactly \<^verbatim>\<open>handleRestart\<close>. (The component keeps one set of state
  variables, so its own results view is left on restart; the finished attempt lives on
  in the record held by the receiver of \<^verbatim>\<open>onComplete\<close>.)
\<close>

theorem restart_keeps_result:
  "handleRestart q s = (initial q)\<lparr>onComplete_calls := onComplete_calls s\<rparr>
   \<and> \<not> quizCompleted (handleRestart q s)
   \<and> \<not> showResults (handleRestart q s)
   \<and> answers (handleRestart q s) = []
   \<and> currentQuestion (handleRestart q s) = 0
   \<and> timeRemaining (handleRestart q s) = timeLimit q * 60
   \<and> onComplete_calls (handleRestart q s) = onComplete_calls s
   \<and> onComplete_calls (handleRestart q (handleSubmitQuiz q s)) = onComplete_calls s @
        [\<lparr>result_answers = answers s, result_score = calculateScore q (answers s),
          timeSpent = timeLimit q * 60 - timeRemaining s\<rparr>]
   \<and> (showResults s \<and> timeLimit q \<noteq> 0 \<longrightarrow> dispatch q s Restart = handleRestart q s)"
  by (simp add: handleRestart_def handleSubmitQuiz_def timer_effect_def initial_def Let_def)

text \<open>
  Witness for C8: restarting the quiz submitted with the answers 1, 0, 0 gives a fresh
  attempt, and the record with those answers and score 67 is unchanged.
\<close>

theorem restart_keeps_result_witness:
  "showResults submitted_1_0_0 \<and> timeLimit quiz3 \<noteq> 0
   \<and> onComplete_calls submitted_1_0_0 =
       [\<lparr>result_answers = [(0, 1), (1, 0), (2, 0)], result_score = Num 67, timeSpent = 0\<rparr>]
   \<and> dispatch quiz3 submitted_1_0_0 Restart =
       \<lparr>currentQuestion = 0, answers = [], timeRemaining = 600, quizCompleted = False,
        showResults = False, score = Num 0,
        onComplete_calls =
          [\<lparr>result_answers = [(0, 1), (1, 0), (2, 0)], result_score = Num 67,
            timeSpent = 0\<rparr>]\<rparr>"
proof -
  have a: "showResults submitted_1_0_0" by (simp add: submitted_1_0_0_eq)
  have b: "timeLimit quiz3 \<noteq> 0" by (simp add: quiz3_def)
  have c: "onComplete_calls submitted_1_0_0 =
       [\<lparr>result_answers = [(0, 1), (1, 0), (2, 0)], result_score = Num 67, timeSpent = 0\<rparr>]"
    by (simp add: submitted_1_0_0_eq)
  have d: "dispatch quiz3 submitted_1_0_0 Restart = handleRestart quiz3 submitted_1_0_0"
    using a b restart_keeps_result [of quiz3 submitted_1_0_0] by blast
  have e: "handleRestart quiz3 submitted_1_0_0
      = (initial quiz3)\<lparr>onComplete_calls := onComplete_calls submitted_1_0_0\<rparr>"
    using restart_keeps_result [of quiz3 submitted_1_0_0] by blast
  have "dispatch quiz3 submitted_1_0_0 Restart
      = (initial quiz3)\<lparr>onComplete_calls := onComplete_calls submitted_1_0_0\<rparr>"
    by (simp only: d e)
  then show ?thesis
    using a b c by (simp add: initial_def) (simp add: quiz3_def)
qed

subsection \<open>C9: the frame of selecting an answer\<close>

text \<open>
  C9. \<^verbatim>\<open>handleAnswerSelect(i, k)\<close> changes the recorded answer of question \<open>i\<close> to \<open>k\<close>
  and nothing else: the recorded answer, or its absence, of every other question is
  as before, and so are the current question, the remaining time, the completion
  flags, the score and the calls of \<^verbatim>\<open>onComplete\<close>. This holds in every state, in
  progress or not.
\<close>

theorem handleAnswerSelect_frame:
  "map_of (answers (handleAnswerSelect i k s)) = (map_of (answers s))(i \<mapsto> k)
   \<and> currentQuestion (handleAnswerSelect i k s) = currentQuestion s
   \<and> timeRemaining (handleAnswerSelect i k s) = timeRemaining s
   \<and> quizCompleted (handleAnswerSelect i k s) = quizCompleted s
   \<and> showResults (handleAnswerSelect i k s) = showResults s
   \<and> score (handleAnswerSelect i k s) = score s
   \<and> onComplete_calls (handleAnswerSelect i k s) = onComplete_calls s"
  by (simp add: handleAnswerSelect_def map_of_assign)

subsection \<open>C10: the two counts of correct answers\<close>

text \<open>
  C10. In every reachable state in which all questions are answered, the number of
  correct answers shown in the results view (\<^verbatim>\<open>Object.values(answers)\<close> filtered by
  position) is the number that \<open>calculateScore\<close> counts by question index. With only
  some questions answered they can differ: in the reachable state \<open>partly_answered\<close>
  of \<open>quiz3\<close>, where only the second question is answered, and correctly, the results
  view counts 0 and \<open>calculateScore\<close> counts 1.
\<close>

theorem results_count_agrees_when_all_answered:
  "(reachable q s \<and> allQuestionsAnswered q s \<longrightarrow>
      results_correct_answers q (answers s) = Inr (count_correct q (answers s)))
   \<and> reachable quiz3 partly_answered
   \<and> answers partly_answered = [(1, 0)]
   \<and> results_correct_answers quiz3 (answers partly_answered) = Inr 0
   \<and> count_correct quiz3 (answers partly_answered) = 1"
proof -
  have "reachable q s \<and> allQuestionsAnswered q s \<Longrightarrow>
      results_correct_answers q (answers s) = Inr (count_correct q (answers s))"
    using reachable_invariant [of q s] results_count_all_answered [of q s] by blast
  moreover have "answers partly_answered = [(1, 0)]"
    by (simp add: partly_answered_eq)
  moreover have "results_correct_answers quiz3 (answers partly_answered) = Inr 0"
    by (simp add: partly_answered_eq results_correct_answers_def object_values_def quiz3_def
        example_question_def)
  moreover have "count_correct quiz3 (answers partly_answered) = 1"
    by (simp add: partly_answered_eq count_correct_def quiz3_def example_question_def)
  ultimately show ?thesis using reachable_partly_answered by blast
qed

text \<open>Witness for C10: with the answers 1, 0, 0 to \<open>quiz3\<close> both counts are 2.\<close>

theorem results_count_agrees_witness:
  "reachable quiz3 in_progress_1_0_0 \<and> allQuestionsAnswered quiz3 in_progress_1_0_0
   \<and> results_correct_answers quiz3 (answers in_progress_1_0_0) = Inr 2
   \<and> count_correct quiz3 (answers in_progress_1_0_0) = 2"
proof -
  have b: "allQuestionsAnswered quiz3 in_progress_1_0_0"
    by (simp add: in_progress_1_0_0_eq allQuestionsAnswered_def hasOwnProperty_def quiz3_def)
  have a: "answers in_progress_1_0_0 = [(0, 1), (1, 0), (2, 0)]"
    by (simp add: in_progress_1_0_0_eq)
  have c: "count_correct quiz3 (answers in_progress_1_0_0) = 2"
    unfolding a by (rule count_correct_1_0_0)
  show ?thesis
    using reachable_in_progress_1_0_0 b c
      results_count_agrees_when_all_answered [of quiz3 in_progress_1_0_0]
    by simp
qed

end
